theory Spec2Isabelle
  imports
    Complex_Main
    "HOL-Library.Log_Nat"
    "HOL-Library.Char_ord"
    "HOL-Library.List_Lexorder"
    "HOL-Library.Multiset"
begin

section \<open>The flashcard scheduler of \<^verbatim>\<open>main.py\<close>\<close>

text \<open>
  The program keeps decks of flashcards in JSON files, selects the cards that are due,
  asks the user how well each one was recalled and reschedules it with a simplified
  SM-2 rule. This theory embeds \<^verbatim>\<open>review_card\<close>, \<^verbatim>\<open>add_new_card\<close>,
  \<^verbatim>\<open>load_deck\<close>, \<^verbatim>\<open>save_deck\<close> and \<^verbatim>\<open>run_review_session\<close> and proves
  properties of them. Exceptions are values of type \<open>error\<close>; the card dictionaries,
  which Python shares by reference between \<^verbatim>\<open>deck\<close>, \<^verbatim>\<open>due_cards\<close> and
  \<^verbatim>\<open>updated_cards\<close>, live in an explicit object store; standard input is a finite
  list of events.
\<close>

datatype error = KeyboardInterrupt | EOFError | OverflowError | ValueError

subsection \<open>Python floats\<close>

text \<open>
  A Python \<^verbatim>\<open>float\<close> is an IEEE 754 binary64 number. A finite one is represented by
  its exact rational value; every arithmetic operation computes the exact result and
  rounds it to the nearest binary64 number, ties to even, overflowing to an infinity.
  The sign of zero is not represented: no operation of the program observes it.
\<close>

datatype pyfloat = Finite rat | PosInf | NegInf | NaN

text \<open>\<open>ilog2 x\<close> is \<open>\<lfloor>log\<^sub>2 x\<rfloor>\<close> for a positive rational \<open>x\<close>.\<close>

definition ilog2 :: "rat \<Rightarrow> int" where
  "ilog2 x = (let (a, b) = quotient_of x; d = bitlen a - bitlen b
              in if 2 powi d \<le> x then d else d - 1)"

definition round_half_even :: "rat \<Rightarrow> int" where
  "round_half_even x =
     (let f = \<lfloor>x\<rfloor>; r = x - of_int f
      in if r < 1 / 2 then f
         else if 1 / 2 < r then f + 1
         else if even f then f else f + 1)"

text \<open>
  Rounding to binary64: 53 significant bits, the exponent of the last bit no smaller than
  \<open>-1074\<close> (subnormal numbers), and an infinity when the rounded value reaches
  \<open>2\<^sup>1\<^sup>0\<^sup>2\<^sup>4\<close>, that is when its binary logarithm is 1024 or more.
\<close>

definition round_double :: "rat \<Rightarrow> pyfloat" where
  "round_double x =
     (if x = 0 then Finite 0
      else
        let e = max (ilog2 \<bar>x\<bar> - 52) (- 1074);
            v = of_int (round_half_even (x / 2 powi e)) * 2 powi e
        in if 1024 \<le> ilog2 \<bar>v\<bar> then (if 0 < x then PosInf else NegInf) else Finite v)"

fun fneg :: "pyfloat \<Rightarrow> pyfloat" where
  "fneg (Finite a) = Finite (- a)"
| "fneg PosInf = NegInf"
| "fneg NegInf = PosInf"
| "fneg NaN = NaN"

fun fadd :: "pyfloat \<Rightarrow> pyfloat \<Rightarrow> pyfloat" where
  "fadd (Finite a) (Finite b) = round_double (a + b)"
| "fadd NaN _ = NaN"
| "fadd _ NaN = NaN"
| "fadd PosInf NegInf = NaN"
| "fadd NegInf PosInf = NaN"
| "fadd PosInf _ = PosInf"
| "fadd NegInf _ = NegInf"
| "fadd _ PosInf = PosInf"
| "fadd _ NegInf = NegInf"

definition fsub :: "pyfloat \<Rightarrow> pyfloat \<Rightarrow> pyfloat" where
  "fsub a b = fadd a (fneg b)"

definition fsign :: "pyfloat \<Rightarrow> int" where
  "fsign a = (case a of Finite v \<Rightarrow> sgn \<lfloor>sgn v\<rfloor> | PosInf \<Rightarrow> 1 | NegInf \<Rightarrow> - 1 | NaN \<Rightarrow> 0)"

fun fmul :: "pyfloat \<Rightarrow> pyfloat \<Rightarrow> pyfloat" where
  "fmul (Finite a) (Finite b) = round_double (a * b)"
| "fmul NaN _ = NaN"
| "fmul _ NaN = NaN"
| "fmul a b =
     (let s = fsign a * fsign b
      in if s = 0 then NaN else if 0 < s then PosInf else NegInf)"

text \<open>The comparison \<^verbatim>\<open>a > b\<close>; it is false as soon as one side is not a number.\<close>

fun fgt :: "pyfloat \<Rightarrow> pyfloat \<Rightarrow> bool" where
  "fgt (Finite a) (Finite b) = (b < a)"
| "fgt NaN _ = False"
| "fgt _ NaN = False"
| "fgt PosInf b = (b \<noteq> PosInf)"
| "fgt a NegInf = (a \<noteq> NegInf)"
| "fgt _ _ = False"

text \<open>\<^verbatim>\<open>a >= b\<close>.\<close>

definition fge :: "pyfloat \<Rightarrow> pyfloat \<Rightarrow> bool" where
  "fge a b = (a \<noteq> NaN \<and> b \<noteq> NaN \<and> (fgt a b \<or> a = b))"

text \<open>
  The builtin \<^verbatim>\<open>max(a, b)\<close> keeps its first argument unless the second compares
  greater.
\<close>

definition py_max :: "pyfloat \<Rightarrow> pyfloat \<Rightarrow> pyfloat" where
  "py_max a b = (if fgt b a then b else a)"

text \<open>
  An \<^verbatim>\<open>int\<close> operand of a float operation is converted first, which raises
  \<^verbatim>\<open>OverflowError\<close> when the integer is too large.
\<close>

definition int_to_float :: "int \<Rightarrow> error + pyfloat" where
  "int_to_float i =
     (case round_double (of_int i) of
        Finite v \<Rightarrow> Inr (Finite v)
      | _ \<Rightarrow> Inl OverflowError)"

definition int_times_float :: "int \<Rightarrow> pyfloat \<Rightarrow> error + pyfloat" where
  "int_times_float i f =
     (case int_to_float i of Inl e \<Rightarrow> Inl e | Inr x \<Rightarrow> Inr (fmul x f))"

text \<open>
  The builtin \<^verbatim>\<open>round\<close> with one argument rounds a float to the nearest integer, ties
  to even; it raises on an infinity and on a NaN.
\<close>

definition py_round :: "pyfloat \<Rightarrow> error + int" where
  "py_round f =
     (case f of
        Finite v \<Rightarrow> Inr (round_half_even v)
      | NaN \<Rightarrow> Inl ValueError
      | _ \<Rightarrow> Inl OverflowError)"

text \<open>A decimal literal denotes the binary64 number nearest to it.\<close>

definition lit :: "rat \<Rightarrow> pyfloat" where
  "lit x = round_double x"

subsection \<open>Calendar dates\<close>

text \<open>
  \<^verbatim>\<open>datetime.date\<close>: a day of the proleptic Gregorian calendar in the years 1 to
  9999. Adding a \<^verbatim>\<open>timedelta\<close> of \<open>n\<close> days moves \<open>n\<close> days forward (backward for a
  negative \<open>n\<close>) and raises \<^verbatim>\<open>OverflowError\<close> when the result leaves that range, or
  when \<open>n\<close> is beyond the range of \<^verbatim>\<open>timedelta\<close>.
\<close>

record date =
  year :: nat
  month :: nat
  day :: nat

definition is_leap :: "nat \<Rightarrow> bool" where
  "is_leap y = (y mod 4 = 0 \<and> (y mod 100 \<noteq> 0 \<or> y mod 400 = 0))"

definition days_in_month :: "nat \<Rightarrow> nat \<Rightarrow> nat" where
  "days_in_month y m =
     (if m = 2 then (if is_leap y then 29 else 28)
      else if m = 4 \<or> m = 6 \<or> m = 9 \<or> m = 11 then 30 else 31)"

definition valid_date :: "date \<Rightarrow> bool" where
  "valid_date d =
     (1 \<le> year d \<and> year d \<le> 9999 \<and> 1 \<le> month d \<and> month d \<le> 12 \<and>
      1 \<le> day d \<and> day d \<le> days_in_month (year d) (month d))"

definition date_less :: "date \<Rightarrow> date \<Rightarrow> bool" where
  "date_less a b =
     (year a < year b \<or> year a = year b \<and>
       (month a < month b \<or> month a = month b \<and> day a < day b))"

definition date_le :: "date \<Rightarrow> date \<Rightarrow> bool" where
  "date_le a b = (date_less a b \<or> a = b)"

definition next_day :: "date \<Rightarrow> date" where
  "next_day d =
     (if day d < days_in_month (year d) (month d) then d\<lparr>day := day d + 1\<rparr>
      else if month d < 12 then d\<lparr>month := month d + 1, day := 1\<rparr>
      else d\<lparr>year := year d + 1, month := 1, day := 1\<rparr>)"

definition prev_day :: "date \<Rightarrow> date" where
  "prev_day d =
     (if 1 < day d then d\<lparr>day := day d - 1\<rparr>
      else if 1 < month d
        then d\<lparr>month := month d - 1, day := days_in_month (year d) (month d - 1)\<rparr>
      else d\<lparr>year := year d - 1, month := 12, day := 31\<rparr>)"

fun days_later :: "nat \<Rightarrow> date \<Rightarrow> date option" where
  "days_later 0 d = Some d"
| "days_later (Suc n) d =
     (if year d = 9999 \<and> month d = 12 \<and> day d = 31 then None
      else days_later n (next_day d))"

fun days_earlier :: "nat \<Rightarrow> date \<Rightarrow> date option" where
  "days_earlier 0 d = Some d"
| "days_earlier (Suc n) d =
     (if year d = 1 \<and> month d = 1 \<and> day d = 1 then None
      else days_earlier n (prev_day d))"

definition date_add :: "date \<Rightarrow> int \<Rightarrow> error + date" where
  "date_add d n =
     (if 999999999 < \<bar>n\<bar> then Inl OverflowError
      else case (if 0 \<le> n then days_later (nat n) d else days_earlier (nat (- n)) d) of
        None \<Rightarrow> Inl OverflowError
      | Some d' \<Rightarrow> Inr d')"

text \<open>\<^verbatim>\<open>isoformat\<close> writes \<^verbatim>\<open>YYYY-MM-DD\<close>, each field padded with zeros.\<close>

definition digit_char :: "nat \<Rightarrow> char" where
  "digit_char n = ''0123456789'' ! n"

definition pad2 :: "nat \<Rightarrow> string" where
  "pad2 n = [digit_char (n div 10 mod 10), digit_char (n mod 10)]"

definition pad4 :: "nat \<Rightarrow> string" where
  "pad4 n = [digit_char (n div 1000 mod 10), digit_char (n div 100 mod 10),
             digit_char (n div 10 mod 10), digit_char (n mod 10)]"

definition isoformat :: "date \<Rightarrow> string" where
  "isoformat d = pad4 (year d) @ ''-'' @ pad2 (month d) @ ''-'' @ pad2 (day d)"

subsection \<open>Cards and the scheduler\<close>

record card =
  front :: string
  "back" :: string
  next_review_date :: string
  repetitions :: int
  interval :: int
  ease_factor :: pyfloat

definition DEFAULT_EASE_FACTOR :: pyfloat where
  "DEFAULT_EASE_FACTOR = lit (5 / 2)"

definition QUALITY_MAP :: "string \<rightharpoonup> int" where
  "QUALITY_MAP = [''1'' \<mapsto> 0, ''2'' \<mapsto> 3, ''3'' \<mapsto> 4, ''4'' \<mapsto> 5]"

text \<open>
  Line 59, \<^verbatim>\<open>round(card['interval'] * card['ease_factor'])\<close>: the interval is
  converted to a float, multiplied and rounded back to an integer.
\<close>

definition scaled_interval :: "int \<Rightarrow> pyfloat \<Rightarrow> error + int" where
  "scaled_interval i ef =
     (case int_times_float i ef of Inl e \<Rightarrow> Inl e | Inr p \<Rightarrow> py_round p)"

text \<open>
  Line 63, \<^verbatim>\<open>max(1.3, ef + (0.1 - (5 - quality) * (0.08 + (5 - quality) * 0.02)))\<close>,
  evaluated in Python's order.
\<close>

definition ease_update :: "pyfloat \<Rightarrow> int \<Rightarrow> error + pyfloat" where
  "ease_update ef quality =
     (case int_times_float (5 - quality) (lit (2 / 100)) of
        Inl e \<Rightarrow> Inl e
      | Inr t1 \<Rightarrow>
          (case int_times_float (5 - quality) (fadd (lit (8 / 100)) t1) of
             Inl e \<Rightarrow> Inl e
           | Inr t3 \<Rightarrow> Inr (py_max (lit (13 / 10)) (fadd ef (fsub (lit (1 / 10)) t3)))))"

text \<open>
  Lines 50 to 68 of \<^verbatim>\<open>review_card\<close>, once the quality is known. The dictionary is
  updated field by field, so an exception leaves the fields assigned before it: the
  result is the exception, if any, and the card as it then is.
\<close>

definition review_card_update :: "date \<Rightarrow> int \<Rightarrow> card \<Rightarrow> error option \<times> card" where
  "review_card_update today quality c =
     (case (if quality < 3 then Inr (c\<lparr>repetitions := 0, interval := 1\<rparr>)
            else
              (case (if repetitions c = 0 then Inr 1
                     else if repetitions c = 1 then Inr 6
                     else scaled_interval (interval c) (ease_factor c)) of
                 Inl e \<Rightarrow> Inl e
               | Inr i \<Rightarrow> Inr (c\<lparr>interval := i, repetitions := repetitions c + 1\<rparr>))) of
        Inl e \<Rightarrow> (Some e, c)
      | Inr c1 \<Rightarrow>
          (case ease_update (ease_factor c1) quality of
             Inl e \<Rightarrow> (Some e, c1)
           | Inr ef \<Rightarrow>
               (let c2 = c1\<lparr>ease_factor := ef\<rparr>
                in case date_add today (interval c2) of
                     Inl e \<Rightarrow> (Some e, c2)
                   | Inr d \<Rightarrow> (None, c2\<lparr>next_review_date := isoformat d\<rparr>))))"

subsection \<open>Standard input\<close>

text \<open>
  What the user does at a prompt: a line is entered, or the prompt is interrupted with
  Ctrl-C. When the list is exhausted standard input is closed and \<^verbatim>\<open>input\<close>
  raises \<^verbatim>\<open>EOFError\<close>.
\<close>

datatype event = Line string | CtrlC

fun input :: "event list \<Rightarrow> (error + string) \<times> event list" where
  "input [] = (Inl EOFError, [])"
| "input (CtrlC # es) = (Inl KeyboardInterrupt, es)"
| "input (Line s # es) = (Inr s, es)"

text \<open>The white space that \<^verbatim>\<open>str.strip\<close> removes, among the characters below 256.\<close>

definition is_space :: "char \<Rightarrow> bool" where
  "is_space c = (of_char c \<in> {9, 10, 11, 12, 13, 28, 29, 30, 31, 32, 133, 160 :: nat})"

definition strip :: "string \<Rightarrow> string" where
  "strip s = rev (dropWhile is_space (rev (dropWhile is_space s)))"

text \<open>
  Lines 46 to 48 of \<^verbatim>\<open>review_card\<close>: prompt until the answer is a key of
  \<^verbatim>\<open>QUALITY_MAP\<close>. An interrupt or the end of input leaves the loop as an exception.
\<close>

fun read_quality :: "event list \<Rightarrow> (error + int) \<times> event list" where
  "read_quality [] = (Inl EOFError, [])"
| "read_quality (CtrlC # es) = (Inl KeyboardInterrupt, es)"
| "read_quality (Line s # es) =
     (case QUALITY_MAP (strip s) of
        Some q \<Rightarrow> (Inr q, es)
      | None \<Rightarrow> read_quality es)"

subsection \<open>The object store and \<^verbatim>\<open>review_card\<close>\<close>

text \<open>
  The dictionaries made by \<^verbatim>\<open>json.load\<close> are distinct objects. The store is the
  list of their current values and a reference is an index into it; \<^verbatim>\<open>deck\<close>,
  \<^verbatim>\<open>due_cards\<close> and \<^verbatim>\<open>updated_cards\<close> are lists of references.
  \<^verbatim>\<open>review_card\<close> updates the referenced card in place and returns the same
  reference.
\<close>

type_synonym store = "card list"

definition review_card ::
  "date \<Rightarrow> nat \<Rightarrow> store \<times> event list \<Rightarrow> error option \<times> store \<times> event list" where
  "review_card today a st =
     (case st of (h, es) \<Rightarrow>
        (case read_quality es of
           (Inl e, es') \<Rightarrow> (Some e, h, es')
         | (Inr quality, es') \<Rightarrow>
             (case review_card_update today quality (h ! a) of
                (r, c') \<Rightarrow> (r, h[a := c'], es'))))"

subsection \<open>Deck files\<close>

record world =
  files :: "string \<rightharpoonup> card list"
  stdin :: "event list"

definition DECK_FOLDER :: string where
  "DECK_FOLDER = ''decks''"

definition get_deck_path :: "string \<Rightarrow> string" where
  "get_deck_path deck_name = DECK_FOLDER @ ''/'' @ deck_name @ ''.json''"

definition load_deck :: "(string \<rightharpoonup> card list) \<Rightarrow> string \<Rightarrow> card list" where
  "load_deck fs deck_name =
     (case fs (get_deck_path deck_name) of None \<Rightarrow> [] | Some cards \<Rightarrow> cards)"

definition save_deck ::
  "string \<Rightarrow> card list \<Rightarrow> (string \<rightharpoonup> card list) \<Rightarrow> (string \<rightharpoonup> card list)" where
  "save_deck deck_name deck_data fs = fs(get_deck_path deck_name \<mapsto> deck_data)"

definition add_new_card :: "date \<Rightarrow> string \<Rightarrow> world \<Rightarrow> world" where
  "add_new_card today deck_name w =
     (let deck = load_deck (files w) deck_name
      in case input (stdin w) of
           (Inl e, es) \<Rightarrow> w\<lparr>stdin := es\<rparr>
         | (Inr f, es) \<Rightarrow>
             (case input es of
                (Inl e, es') \<Rightarrow> w\<lparr>stdin := es'\<rparr>
              | (Inr b, es') \<Rightarrow>
                  (let new_card = \<lparr>front = f, back = b,
                                    next_review_date = isoformat today,
                                    repetitions = 0, interval = 1,
                                    ease_factor = DEFAULT_EASE_FACTOR\<rparr>
                   in \<lparr>files = save_deck deck_name (deck @ [new_card]) (files w),
                       stdin = es'\<rparr>)))"

subsection \<open>The review session\<close>

text \<open>Line 101: the cards whose date string is at most today's, in deck order.\<close>

definition due_cards :: "store \<Rightarrow> nat list \<Rightarrow> string \<Rightarrow> nat list" where
  "due_cards h deck today_iso = filter (\<lambda>a. next_review_date (h ! a) \<le> today_iso) deck"

text \<open>
  Lines 113 to 124: for each due card wait for Enter, review the card and append it to
  \<^verbatim>\<open>updated_cards\<close>. The result is the exception that ended the loop, if any, with
  the store, \<^verbatim>\<open>updated_cards\<close> and the remaining input.
\<close>

fun review_loop ::
  "date \<Rightarrow> nat list \<Rightarrow> store \<times> nat list \<times> event list
     \<Rightarrow> error option \<times> store \<times> nat list \<times> event list" where
  "review_loop today [] st = (None, st)"
| "review_loop today (a # rest) (h, updated_cards, es) =
     (case input es of
        (Inl e, es') \<Rightarrow> (Some e, h, updated_cards, es')
      | (Inr _, es') \<Rightarrow>
          (case review_card today a (h, es') of
             (Some e, h', es'') \<Rightarrow> (Some e, h', updated_cards, es'')
           | (None, h', es'') \<Rightarrow> review_loop today rest (h', updated_cards @ [a], es'')))"

definition card_key :: "card \<Rightarrow> string \<times> string" where
  "card_key c = (front c, back c)"

text \<open>
  Lines 126 and 136: the dictionary comprehension; a later card with the same key
  replaces an earlier one.
\<close>

definition card_map :: "store \<Rightarrow> nat list \<Rightarrow> (string \<times> string \<rightharpoonup> nat)" where
  "card_map h updated_cards = fold (\<lambda>a m. m(card_key (h ! a) \<mapsto> a)) updated_cards Map.empty"

text \<open>Lines 127 to 130 and 137 to 140: the loop over the positions of the deck.\<close>

function merge_loop ::
  "store \<Rightarrow> (string \<times> string \<rightharpoonup> nat) \<Rightarrow> nat \<Rightarrow> nat list \<Rightarrow> nat list" where
  "merge_loop h cm i deck =
     (if i < length deck
      then merge_loop h cm (i + 1)
             (case cm (card_key (h ! (deck ! i))) of
                Some a \<Rightarrow> deck[i := a]
              | None \<Rightarrow> deck)
      else deck)"
  by pat_completeness auto
termination
  by (relation "measure (\<lambda>(h, cm, i, deck). length deck - i)") (auto split: option.splits)

definition merge :: "store \<Rightarrow> nat list \<Rightarrow> nat list \<Rightarrow> nat list" where
  "merge h updated_cards deck = merge_loop h (card_map h updated_cards) 0 deck"

text \<open>\<^verbatim>\<open>json.dump\<close> writes the current value of every reference of the deck.\<close>

definition merge_and_save ::
  "string \<Rightarrow> store \<Rightarrow> nat list \<Rightarrow> nat list \<Rightarrow> (string \<rightharpoonup> card list)
     \<Rightarrow> (string \<rightharpoonup> card list)" where
  "merge_and_save deck_name h updated_cards deck fs =
     save_deck deck_name (map (\<lambda>a. h ! a) (merge h updated_cards deck)) fs"

datatype outcome = DeckEmpty | NothingDue | Completed | Interrupted | Crashed error

text \<open>
  \<^verbatim>\<open>run_review_session\<close>. \<open>shuffle\<close> stands for \<^verbatim>\<open>random.shuffle\<close> and
  \<open>today\<close> for the date that \<^verbatim>\<open>datetime.date.today()\<close> returns during the
  session. Only \<^verbatim>\<open>KeyboardInterrupt\<close> and \<^verbatim>\<open>EOFError\<close> are caught; any other
  exception ends the program before the deck is saved.
\<close>

definition run_review_session ::
  "(nat list \<Rightarrow> nat list) \<Rightarrow> date \<Rightarrow> string \<Rightarrow> world \<Rightarrow> outcome \<times> world" where
  "run_review_session shuffle today deck_name w =
     (let cards = load_deck (files w) deck_name
      in if cards = [] then (DeckEmpty, w)
         else
           let deck = [0..<length cards];
               due = due_cards cards deck (isoformat today)
           in if due = [] then (NothingDue, w)
              else
                (case review_loop today (shuffle due) (cards, [], stdin w) of
                   (None, h, updated_cards, es) \<Rightarrow>
                     (Completed,
                      \<lparr>files = merge_and_save deck_name h updated_cards deck (files w),
                        stdin = es\<rparr>)
                 | (Some e, h, updated_cards, es) \<Rightarrow>
                     if e = KeyboardInterrupt \<or> e = EOFError
                     then (Interrupted,
                           \<lparr>files = merge_and_save deck_name h updated_cards deck (files w),
                             stdin = es\<rparr>)
                     else (Crashed e, w\<lparr>stdin := es\<rparr>)))"

section \<open>Properties of the scheduler\<close>

text \<open>
  C8: for every card and every score, \<^verbatim>\<open>review_card\<close> leaves the front and the back
  of the card as they were, whether it returns or raises; only the four scheduling fields
  can change.
\<close>

theorem review_card_update_frame:
  "front (snd (review_card_update today quality c)) = front c \<and>
   back (snd (review_card_update today quality c)) = back c"
  unfolding review_card_update_def Let_def
  by (simp split: sum.splits)

text \<open>
  C2: for every card and every score below 3, \<^verbatim>\<open>review_card\<close> sets the repetitions
  to 0 and the interval to 1, whatever the card's repetitions, interval and ease factor
  were.
\<close>

theorem review_card_update_failure:
  "quality < 3 \<Longrightarrow>
     repetitions (snd (review_card_update today quality c)) = 0 \<and>
     interval (snd (review_card_update today quality c)) = 1"
  unfolding review_card_update_def Let_def
  by (simp split: sum.splits)

theorem review_card_update_failure_witness:
  "(0 :: int) < 3 \<and>
   repetitions (snd (review_card_update \<lparr>year = 2024, month = 2, day = 28\<rparr> 0
     \<lparr>front = ''q'', back = ''a'', next_review_date = ''2024-02-01'',
      repetitions = 4, interval = 30, ease_factor = Finite (5 / 2)\<rparr>)) = 0 \<and>
   interval (snd (review_card_update \<lparr>year = 2024, month = 2, day = 28\<rparr> 0
     \<lparr>front = ''q'', back = ''a'', next_review_date = ''2024-02-01'',
      repetitions = 4, interval = 30, ease_factor = Finite (5 / 2)\<rparr>)) = 1"
  using review_card_update_failure [of 0 "\<lparr>year = 2024, month = 2, day = 28\<rparr>"
     "\<lparr>front = ''q'', back = ''a'', next_review_date = ''2024-02-01'',
      repetitions = 4, interval = 30, ease_factor = Finite (5 / 2)\<rparr>"]
  by simp

end
